theory Spec2Isabelle
  imports Main "HOL-Library.Word"
begin

unbundle bit_operations_syntax

section \<open>Basic types of the protocol layer\<close>

text \<open>
  \<^verbatim>\<open>typedef uint32_t msg_size_t; typedef unsigned short int msg_type_t;\<close>
  (\<^verbatim>\<open>src/include/result.h\<close>, protocol part). A \<^verbatim>\<open>byte\<close> is an octet and
  \<^verbatim>\<open>bytes\<close> a region of them.
\<close>

type_synonym byte = "8 word"
type_synonym bytes = "byte list"
type_synonym msg_size_t = "32 word"
type_synonym msg_type_t = "16 word"

text \<open>
  The constants \<^verbatim>\<open>msg_type::Error\<close> and \<^verbatim>\<open>msg_type::Notice\<close> are declared
  in a header that is not part of the sources at hand, so their numeric values are a
  parameter of every function that compares a type tag with them.
\<close>

record msg_type =
  msg_type_Error :: msg_type_t
  msg_type_Notice :: msg_type_t

text \<open>\<^verbatim>\<open>enum Protocol_side { SERVER, CLIENT};\<close>\<close>

datatype Protocol_side = SERVER | CLIENT

fun other_side :: "Protocol_side \<Rightarrow> Protocol_side" where
  "other_side SERVER = CLIENT"
| "other_side CLIENT = SERVER"

text \<open>
  Errors. The CDK \<^verbatim>\<open>Error\<close> class is declared outside the sources at hand. The
  macro \<^verbatim>\<open>THROW("...")\<close> raises a generic error that carries only a description; the
  other constructors are the error kinds that the receive pipeline of the specification
  names.
\<close>

datatype Error =
    Generic_error string
  | Eos
  | Oversize
  | UnknownMessage msg_type_t
  | UnexpectedMessage msg_type_t
  | Decode msg_type_t

section \<open>Decoded messages and processor callbacks\<close>

text \<open>
  The protobuf classes \<^verbatim>\<open>Mysqlx::Error\<close> and \<^verbatim>\<open>Mysqlx::Notice::Frame\<close> with
  the accessors that \<^verbatim>\<open>Op_rcv::process_msg\<close> reads. Every other message class is
  kept as its class name and serialized payload.
\<close>

datatype Mysqlx_Error = Mysqlx_Error
  (err_code: "32 word") (err_severity: "32 word") (err_sql_state: string) (err_msg: string)

datatype Mysqlx_Notice_Frame = Mysqlx_Notice_Frame
  (notice_type: "32 word") (notice_scope: "32 word") (notice_payload: bytes)

datatype Message =
    Msg_Error Mysqlx_Error
  | Msg_Notice_Frame Mysqlx_Notice_Frame
  | Msg_other string bytes

text \<open>\<^verbatim>\<open>sql_state_t sqlstate(err.sql_state());\<close>\<close>

datatype sql_state_t = sql_state_t string

text \<open>
  The comment in \<^verbatim>\<open>Op_rcv::process_msg\<close>: "There are 2 error severities:
  0 = ERROR, 1 = FATAL. For us both are treated as 2 = ERROR."
\<close>

definition Severity_ERROR :: int where
  "Severity_ERROR = 2"

text \<open>
  A call that a receive operation makes, recorded with its receiver and arguments.
  \<open>'p\<close> is the identity of a processor object (what a \<^verbatim>\<open>Processor_base*\<close> points to).
  \<open>Call_do_process_msg\<close> records an invocation of the virtual \<^verbatim>\<open>do_process_msg\<close>.
\<close>

datatype 'p call =
    Call_message_begin 'p msg_type_t nat
  | Call_raw_payload 'p bytes
  | Call_notice 'p "32 word" "16 word" bytes
  | Call_error 'p "32 word" int sql_state_t string
  | Call_do_process_msg msg_type_t Message
  | Call_message_end 'p

section \<open>Asynchronous operations: \<^verbatim>\<open>Op_base\<close> and \<^verbatim>\<open>Op_rcv\<close>\<close>

record Op_base =
  m_completed :: bool
  m_error :: "Error option"

definition is_completed :: "'a Op_base_scheme \<Rightarrow> bool" where
  "is_completed op = m_completed op"

definition is_done :: "'a Op_base_scheme \<Rightarrow> bool" where
  "is_done op = is_completed op"

text \<open>
  \<^verbatim>\<open>save_error()\<close> runs inside a catch block; \<open>e\<close> is the exception being handled,
  wrapped as a CDK error by \<^verbatim>\<open>rethrow_error()\<close>. \<^verbatim>\<open>m_error.reset(e.clone())\<close>.
\<close>

definition save_error :: "Error \<Rightarrow> 'a Op_base_scheme \<Rightarrow> 'a Op_base_scheme" where
  "save_error e op = op\<lparr>m_error := Some e\<rparr>"

text \<open>
  \<^verbatim>\<open>if (m_error) m_error->rethrow();\<close> The first component is \<open>Inl e\<close> when \<open>e\<close> is
  thrown and \<open>Inr ()\<close> on a normal return; the second is the operation afterwards.
\<close>

definition throw_saved_error :: "'a Op_base_scheme \<Rightarrow> (Error + unit) \<times> 'a Op_base_scheme" where
  "throw_saved_error op =
     (case m_error op of
        Some e \<Rightarrow> (Inl e, op)
      | None \<Rightarrow> (Inr (), op))"

datatype Op_rcv_stage = HEADER | PAYLOAD | DONE

record 'p Op_rcv = Op_base +
  m_stage :: Op_rcv_stage
  m_prc :: "'p option"
  m_msg_type :: msg_type_t
  m_msg_size :: nat
  m_read_window :: nat
  m_call_message_end :: bool
  m_skip :: bool

text \<open>
  The constructor \<^verbatim>\<open>Op_rcv(Protocol_impl &proto)\<close> initialises \<^verbatim>\<open>m_completed\<close>,
  \<^verbatim>\<open>m_error\<close> (an empty \<^verbatim>\<open>scoped_ptr\<close>), \<^verbatim>\<open>m_stage\<close> and \<^verbatim>\<open>m_prc\<close>; the other
  members keep whatever the fresh storage \<open>raw\<close> holds.
\<close>

definition Op_rcv_ctor :: "'p Op_rcv \<Rightarrow> 'p Op_rcv" where
  "Op_rcv_ctor raw = raw\<lparr>m_completed := False, m_error := None, m_stage := HEADER, m_prc := None\<rparr>"

datatype Next_msg = EXPECTED | UNEXPECTED | STOP

text \<open>
  The virtual methods that a specialisation of \<^verbatim>\<open>Op_rcv\<close> may override. They are
  member functions, so they see the operation.
\<close>

record 'p Op_rcv_virt =
  v_do_next_msg :: "'p Op_rcv \<Rightarrow> msg_type_t \<Rightarrow> Next_msg"
  v_do_process_next :: "'p Op_rcv \<Rightarrow> bool"

text \<open>\<^verbatim>\<open>virtual Next_msg do_next_msg(msg_type_t) { return UNEXPECTED; }\<close>\<close>

definition do_next_msg :: "'p Op_rcv \<Rightarrow> msg_type_t \<Rightarrow> Next_msg" where
  "do_next_msg op t = UNEXPECTED"

text \<open>\<^verbatim>\<open>virtual bool do_process_next() { return false; }\<close>\<close>

definition do_process_next :: "'p Op_rcv \<Rightarrow> bool" where
  "do_process_next op = False"

definition Op_rcv_default :: "'p Op_rcv_virt" where
  "Op_rcv_default = \<lparr>v_do_next_msg = do_next_msg, v_do_process_next = do_process_next\<rparr>"

text \<open>
  \<^verbatim>\<open>switch (type) { case msg_type::Error: return EXPECTED;
  case msg_type::Notice: return EXPECTED; default: return do_next_msg(type); }\<close>
\<close>

definition next_msg :: "msg_type \<Rightarrow> 'p Op_rcv_virt \<Rightarrow> 'p Op_rcv \<Rightarrow> msg_type_t \<Rightarrow> Next_msg" where
  "next_msg mt v op t =
     (if t = msg_type_Error mt then EXPECTED
      else if t = msg_type_Notice mt then EXPECTED
      else v_do_next_msg v op t)"

text \<open>
  \<^verbatim>\<open>if (msg_type::Notice == m_msg_type) return true;
  else if (msg_type::Error == m_msg_type) return false;
  else return do_process_next();\<close>
\<close>

definition process_next :: "msg_type \<Rightarrow> 'p Op_rcv_virt \<Rightarrow> 'p Op_rcv \<Rightarrow> bool" where
  "process_next mt v op =
     (if msg_type_Notice mt = m_msg_type op then True
      else if msg_type_Error mt = m_msg_type op then False
      else v_do_process_next v op)"

text \<open>
  \<^verbatim>\<open>Op_rcv::process_msg(msg_type_t type, Message &msg)\<close>. The tests read the member
  \<^verbatim>\<open>m_msg_type\<close>, not the argument \<^verbatim>\<open>type\<close>. \<^verbatim>\<open>*m_prc\<close> dereferences the
  processor pointer, and \<^verbatim>\<open>static_cast\<close> downcasts the processor to
  \<^verbatim>\<open>Error_processor\<close> and the message to its protobuf class; where the pointer is
  null or the message is of another class the behaviour is undefined, which is the
  result \<open>None\<close>. \<^verbatim>\<open>(short)notice.scope()\<close> keeps the low 16 bits.
\<close>

definition process_msg ::
  "msg_type \<Rightarrow> 'p Op_rcv \<Rightarrow> msg_type_t \<Rightarrow> Message \<Rightarrow> 'p call list option" where
  "process_msg mt op type msg =
     (if msg_type_Notice mt = m_msg_type op then
        (case m_prc op of
           None \<Rightarrow> None
         | Some ep \<Rightarrow>
            (case msg of
               Msg_Notice_Frame notice \<Rightarrow>
                 Some [Call_notice ep (notice_type notice) (ucast (notice_scope notice))
                         (notice_payload notice)]
             | _ \<Rightarrow> None))
      else if msg_type_Error mt = m_msg_type op then
        (case m_prc op of
           None \<Rightarrow> None
         | Some ep \<Rightarrow>
            (case msg of
               Msg_Error err \<Rightarrow>
                 Some [Call_error ep (err_code err) 2 (sql_state_t (err_sql_state err))
                         (err_msg err)]
             | _ \<Rightarrow> None))
      else Some [Call_do_process_msg type msg])"

fun is_do_process_msg :: "'p call \<Rightarrow> bool" where
  "is_do_process_msg (Call_do_process_msg t m) = True"
| "is_do_process_msg c = False"

section \<open>\<^verbatim>\<open>BaseResult\<close>\<close>

text \<open>
  \<^verbatim>\<open>class BaseResult { Impl *m_impl; bool m_owns_impl; row_count_t m_pos; ... }\<close>.
  The pointer \<^verbatim>\<open>m_impl\<close> is an address or null. Objects live in a store indexed by
  their address, since \<^verbatim>\<open>init\<close> writes to both \<^verbatim>\<open>*this\<close> and its argument.
\<close>

record BaseResult =
  m_impl :: "nat option"
  m_owns_impl :: bool
  m_pos :: "64 word"

type_synonym store = "nat \<Rightarrow> BaseResult"

text \<open>
  \<^verbatim>\<open>m_pos = 0; m_impl = init.m_impl;
  if (!init.m_owns_impl) m_owns_impl = false;
  else { m_owns_impl = true; init.m_owns_impl = false; }\<close>
\<close>

definition init :: "nat \<Rightarrow> nat \<Rightarrow> store \<Rightarrow> store" where
  "init this other h =
     (let h1 = h(this := (h this)\<lparr>m_pos := 0\<rparr>);
          h2 = h1(this := (h1 this)\<lparr>m_impl := m_impl (h1 other)\<rparr>)
      in if \<not> m_owns_impl (h2 other)
         then h2(this := (h2 this)\<lparr>m_owns_impl := False\<rparr>)
         else (let h3 = h2(this := (h2 this)\<lparr>m_owns_impl := True\<rparr>)
               in h3(other := (h3 other)\<lparr>m_owns_impl := False\<rparr>)))"

section \<open>Safe processors\<close>

text \<open>
  \<^verbatim>\<open>Safe_prc<PRC>\<close> wraps a pointer \<^verbatim>\<open>m_prc\<close> to a processor, which may be null.
  Its two constructors take a pointer, or a reference (whose address is never null):
  \<open>Safe_prc None\<close> is the wrapper of a null pointer.
\<close>

datatype 'p Safe_prc = Safe_prc (safe_m_prc: "'p option")

text \<open>
  The abstract class \<^verbatim>\<open>Scalar_processor\<close>: one field for each pure virtual method.
  A callback acts on the state \<open>'s\<close> of whatever the processor object can reach.
  The overloads of \<^verbatim>\<open>str\<close> and \<^verbatim>\<open>num\<close> are told apart by their argument types.
  \<^verbatim>\<open>charset_id_t\<close> is \<^verbatim>\<open>uint64_t\<close>; a \<^verbatim>\<open>float\<close> or \<^verbatim>\<open>double\<close> argument is only
  handed on, so it is kept as its 32 or 64 bits; an \<^verbatim>\<open>int64_t\<close> is its 64 bits in two's
  complement.
\<close>

type_synonym charset_id_t = "64 word"

record 's Scalar_processor =
  prc_null :: "'s \<Rightarrow> 's"
  prc_str :: "bytes \<Rightarrow> 's \<Rightarrow> 's"
  prc_str_cs :: "charset_id_t \<Rightarrow> bytes \<Rightarrow> 's \<Rightarrow> 's"
  prc_num_int64 :: "64 word \<Rightarrow> 's \<Rightarrow> 's"
  prc_num_uint64 :: "64 word \<Rightarrow> 's \<Rightarrow> 's"
  prc_num_float :: "32 word \<Rightarrow> 's \<Rightarrow> 's"
  prc_num_double :: "64 word \<Rightarrow> 's \<Rightarrow> 's"
  prc_yesno :: "bool \<Rightarrow> 's \<Rightarrow> 's"
  prc_octets :: "bytes \<Rightarrow> 's \<Rightarrow> 's"

text \<open>
  \<^verbatim>\<open>Safe_prc<Scalar_processor>\<close>: each method is
  \<^verbatim>\<open>return m_prc ? m_prc->f(args) : (void)NULL;\<close>
\<close>

definition safe_null :: "'s Scalar_processor Safe_prc \<Rightarrow> 's \<Rightarrow> 's" where
  "safe_null sp s = (case safe_m_prc sp of Some p \<Rightarrow> prc_null p s | None \<Rightarrow> s)"

definition safe_str :: "'s Scalar_processor Safe_prc \<Rightarrow> bytes \<Rightarrow> 's \<Rightarrow> 's" where
  "safe_str sp val s = (case safe_m_prc sp of Some p \<Rightarrow> prc_str p val s | None \<Rightarrow> s)"

definition safe_str_cs ::
  "'s Scalar_processor Safe_prc \<Rightarrow> charset_id_t \<Rightarrow> bytes \<Rightarrow> 's \<Rightarrow> 's" where
  "safe_str_cs sp cs val s =
     (case safe_m_prc sp of Some p \<Rightarrow> prc_str_cs p cs val s | None \<Rightarrow> s)"

definition safe_num_int64 :: "'s Scalar_processor Safe_prc \<Rightarrow> 64 word \<Rightarrow> 's \<Rightarrow> 's" where
  "safe_num_int64 sp val s =
     (case safe_m_prc sp of Some p \<Rightarrow> prc_num_int64 p val s | None \<Rightarrow> s)"

definition safe_num_uint64 :: "'s Scalar_processor Safe_prc \<Rightarrow> 64 word \<Rightarrow> 's \<Rightarrow> 's" where
  "safe_num_uint64 sp val s =
     (case safe_m_prc sp of Some p \<Rightarrow> prc_num_uint64 p val s | None \<Rightarrow> s)"

definition safe_num_float :: "'s Scalar_processor Safe_prc \<Rightarrow> 32 word \<Rightarrow> 's \<Rightarrow> 's" where
  "safe_num_float sp val s =
     (case safe_m_prc sp of Some p \<Rightarrow> prc_num_float p val s | None \<Rightarrow> s)"

definition safe_num_double :: "'s Scalar_processor Safe_prc \<Rightarrow> 64 word \<Rightarrow> 's \<Rightarrow> 's" where
  "safe_num_double sp val s =
     (case safe_m_prc sp of Some p \<Rightarrow> prc_num_double p val s | None \<Rightarrow> s)"

definition safe_yesno :: "'s Scalar_processor Safe_prc \<Rightarrow> bool \<Rightarrow> 's \<Rightarrow> 's" where
  "safe_yesno sp val s = (case safe_m_prc sp of Some p \<Rightarrow> prc_yesno p val s | None \<Rightarrow> s)"

definition safe_octets :: "'s Scalar_processor Safe_prc \<Rightarrow> bytes \<Rightarrow> 's \<Rightarrow> 's" where
  "safe_octets sp data s = (case safe_m_prc sp of Some p \<Rightarrow> prc_octets p data s | None \<Rightarrow> s)"

text \<open>
  The abstract class \<^verbatim>\<open>Expr_processor\<close>. \<^verbatim>\<open>val\<close>, \<^verbatim>\<open>op\<close> and \<^verbatim>\<open>call\<close> return
  a pointer to a processor (an address, or null). A \<^verbatim>\<open>Db_obj\<close> or \<^verbatim>\<open>Doc_path\<close>
  argument is the address of the object referred to; \<^verbatim>\<open>const Db_obj *\<close> may be null.
  The overloads of \<^verbatim>\<open>id\<close> and \<^verbatim>\<open>placeholder\<close> are told apart by their arguments.
\<close>

record 's Expr_processor =
  prc_val :: "'s \<Rightarrow> nat option \<times> 's"
  prc_op :: "string \<Rightarrow> 's \<Rightarrow> nat option \<times> 's"
  prc_call :: "nat \<Rightarrow> 's \<Rightarrow> nat option \<times> 's"
  prc_var :: "string \<Rightarrow> 's \<Rightarrow> 's"
  prc_id :: "string \<Rightarrow> nat option \<Rightarrow> 's \<Rightarrow> 's"
  prc_id_path :: "string \<Rightarrow> nat option \<Rightarrow> nat \<Rightarrow> 's \<Rightarrow> 's"
  prc_id_doc_path :: "nat \<Rightarrow> 's \<Rightarrow> 's"
  prc_placeholder :: "'s \<Rightarrow> 's"
  prc_placeholder_name :: "string \<Rightarrow> 's \<Rightarrow> 's"
  prc_placeholder_pos :: "32 word \<Rightarrow> 's \<Rightarrow> 's"

text \<open>
  \<^verbatim>\<open>Safe_prc<Expr_processor>\<close>. \<^verbatim>\<open>val\<close>, \<^verbatim>\<open>op\<close> and \<^verbatim>\<open>call\<close> are
  \<^verbatim>\<open>return m_prc ? m_prc->f(args) : NULL;\<close> with the pointer converted to a
  \<^verbatim>\<open>Safe_prc\<close> by its constructor; the others are as for scalars.
\<close>

definition safe_val :: "'s Expr_processor Safe_prc \<Rightarrow> 's \<Rightarrow> nat Safe_prc \<times> 's" where
  "safe_val sp s =
     (case safe_m_prc sp of
        Some p \<Rightarrow> (Safe_prc (fst (prc_val p s)), snd (prc_val p s))
      | None \<Rightarrow> (Safe_prc None, s))"

definition safe_op :: "'s Expr_processor Safe_prc \<Rightarrow> string \<Rightarrow> 's \<Rightarrow> nat Safe_prc \<times> 's" where
  "safe_op sp name s =
     (case safe_m_prc sp of
        Some p \<Rightarrow> (Safe_prc (fst (prc_op p name s)), snd (prc_op p name s))
      | None \<Rightarrow> (Safe_prc None, s))"

definition safe_call :: "'s Expr_processor Safe_prc \<Rightarrow> nat \<Rightarrow> 's \<Rightarrow> nat Safe_prc \<times> 's" where
  "safe_call sp func s =
     (case safe_m_prc sp of
        Some p \<Rightarrow> (Safe_prc (fst (prc_call p func s)), snd (prc_call p func s))
      | None \<Rightarrow> (Safe_prc None, s))"

definition safe_var :: "'s Expr_processor Safe_prc \<Rightarrow> string \<Rightarrow> 's \<Rightarrow> 's" where
  "safe_var sp name s = (case safe_m_prc sp of Some p \<Rightarrow> prc_var p name s | None \<Rightarrow> s)"

definition safe_id :: "'s Expr_processor Safe_prc \<Rightarrow> string \<Rightarrow> nat option \<Rightarrow> 's \<Rightarrow> 's" where
  "safe_id sp name db_obj s =
     (case safe_m_prc sp of Some p \<Rightarrow> prc_id p name db_obj s | None \<Rightarrow> s)"

definition safe_id_path ::
  "'s Expr_processor Safe_prc \<Rightarrow> string \<Rightarrow> nat option \<Rightarrow> nat \<Rightarrow> 's \<Rightarrow> 's" where
  "safe_id_path sp name db_obj path s =
     (case safe_m_prc sp of Some p \<Rightarrow> prc_id_path p name db_obj path s | None \<Rightarrow> s)"

definition safe_id_doc_path :: "'s Expr_processor Safe_prc \<Rightarrow> nat \<Rightarrow> 's \<Rightarrow> 's" where
  "safe_id_doc_path sp path s =
     (case safe_m_prc sp of Some p \<Rightarrow> prc_id_doc_path p path s | None \<Rightarrow> s)"

definition safe_placeholder :: "'s Expr_processor Safe_prc \<Rightarrow> 's \<Rightarrow> 's" where
  "safe_placeholder sp s =
     (case safe_m_prc sp of Some p \<Rightarrow> prc_placeholder p s | None \<Rightarrow> s)"

definition safe_placeholder_name :: "'s Expr_processor Safe_prc \<Rightarrow> string \<Rightarrow> 's \<Rightarrow> 's" where
  "safe_placeholder_name sp name s =
     (case safe_m_prc sp of Some p \<Rightarrow> prc_placeholder_name p name s | None \<Rightarrow> s)"

definition safe_placeholder_pos :: "'s Expr_processor Safe_prc \<Rightarrow> 32 word \<Rightarrow> 's \<Rightarrow> 's" where
  "safe_placeholder_pos sp pos s =
     (case safe_m_prc sp of Some p \<Rightarrow> prc_placeholder_pos p pos s | None \<Rightarrow> s)"

section \<open>Dispatch by message type\<close>

text \<open>
  \<^verbatim>\<open>MSG_LIST\<close> is an X-macro declared outside the sources at hand: it lists every
  message of the protocol once, as \<^verbatim>\<open>MSG_SERVER(X, MSG, N, C)\<close> or
  \<^verbatim>\<open>MSG_CLIENT(X, MSG, N, C)\<close>, so it is a parameter here. An entry has the side
  that sends the message, its protobuf class \<^verbatim>\<open>MSG\<close> and the value of its type tag
  (\<^verbatim>\<open>msg_type::N\<close> for a server message, \<^verbatim>\<open>msg_type::cli_N\<close> for a client one).
\<close>

record msg_entry =
  e_side :: Protocol_side
  e_MSG :: string
  e_tag :: msg_type_t

text \<open>
  The call \<^verbatim>\<open>Base::process_msg_with(static_cast<MSG&>(msg), prc)\<close>, recorded with
  the class the message is cast to.
\<close>

datatype 'p dispatch = Base_process_msg_with string Message 'p

text \<open>
  \<^verbatim>\<open>Message_dispatcher<Base>::process_msg_with(type, msg, prc)\<close>. With
  \<^verbatim>\<open>m_side == SERVER\<close> the inner switch is \<^verbatim>\<open>MSG_LIST(PRC_SRV)\<close>, which expands to
  one \<^verbatim>\<open>case\<close> for each server message and to nothing for a client message; with
  \<^verbatim>\<open>CLIENT\<close> it is \<^verbatim>\<open>MSG_LIST(PRC_CLI)\<close>, the other way round. Both
  \<^verbatim>\<open>default\<close> arms are \<^verbatim>\<open>THROW("unknown server message type")\<close>. The outer
  \<^verbatim>\<open>default\<close> arm needs a side that is neither, which the enumeration does not have.
\<close>

definition process_msg_with ::
  "msg_entry list \<Rightarrow> Protocol_side \<Rightarrow> msg_type_t \<Rightarrow> Message \<Rightarrow> 'p \<Rightarrow> Error + 'p dispatch" where
  "process_msg_with MSG_LIST side type msg prc =
     (case side of
        SERVER \<Rightarrow>
          (case find (\<lambda>e. e_side e = SERVER \<and> e_tag e = type) MSG_LIST of
             Some e \<Rightarrow> Inr (Base_process_msg_with (e_MSG e) msg prc)
           | None \<Rightarrow> Inl (Generic_error ''unknown server message type''))
      | CLIENT \<Rightarrow>
          (case find (\<lambda>e. e_side e = CLIENT \<and> e_tag e = type) MSG_LIST of
             Some e \<Rightarrow> Inr (Base_process_msg_with (e_MSG e) msg prc)
           | None \<Rightarrow> Inl (Generic_error ''unknown server message type'')))"

section \<open>Frames and buffers\<close>

text \<open>
  \<^verbatim>\<open>const size_t header_length= 5;\<close>
  \<^verbatim>\<open>const size_t max_wr_size= 1024*1024*1024;  // 1GB\<close>
  \<^verbatim>\<open>const size_t max_rd_size= max_wr_size;\<close>
\<close>

definition header_length :: nat where
  "header_length = 5"

definition max_wr_size :: nat where
  "max_wr_size = 1024 * 1024 * 1024"

definition max_rd_size :: nat where
  "max_rd_size = max_wr_size"

text \<open>
  The 4-byte length of a frame as it is on the wire, little-endian: the first byte is
  the low one.
\<close>

definition le_u32 :: "byte \<Rightarrow> byte \<Rightarrow> byte \<Rightarrow> byte \<Rightarrow> msg_size_t" where
  "le_u32 b0 b1 b2 b3 =
     ucast b0 OR push_bit 8 (ucast b1) OR push_bit 16 (ucast b2) OR push_bit 24 (ucast b3)"

record frame_header =
  h_type :: msg_type_t
  h_payload_size :: nat

text \<open>
  Modelled from the spec: \<^verbatim>\<open>Protocol_impl::read_header\<close> is declared in the source
  and defined outside it. "\<^verbatim>\<open>read_header()\<close> begins a read of exactly 5 bytes. On
  completion, parses the size (byte-swapped from little-endian to host), stores
  \<^verbatim>\<open>type\<close> and \<^verbatim>\<open>payload_size = size - 1\<close>. Fails with \<^verbatim>\<open>Oversize\<close> if
  \<^verbatim>\<open>size > MAX_FRAME\<close> or \<^verbatim>\<open>size = 0\<close>." A read that ends before 5 bytes is
  \<^verbatim>\<open>Eos\<close>. The argument is what the read delivered.
\<close>

definition read_header_done :: "bytes \<Rightarrow> Error + frame_header" where
  "read_header_done hdr =
     (case hdr of
        [b0, b1, b2, b3, t] \<Rightarrow>
          (let size = unat (le_u32 b0 b1 b2 b3)
           in if size > max_rd_size \<or> size = 0 then Inl Oversize
              else Inr \<lparr>h_type = ucast t, h_payload_size = size - 1\<rparr>)
      | _ \<Rightarrow> Inl Eos)"

text \<open>The sizes of the two raw buffers, \<^verbatim>\<open>m_rd_size\<close> and \<^verbatim>\<open>m_wr_size\<close>.\<close>

record buffers =
  m_rd_size :: nat
  m_wr_size :: nat

text \<open>
  Modelled from the spec: \<^verbatim>\<open>Protocol_impl::read_payload\<close> and
  \<^verbatim>\<open>Protocol_impl::resize_buf\<close> are declared in the source and defined outside it.
  "\<^verbatim>\<open>read_payload()\<close> begins a read of exactly \<^verbatim>\<open>payload_size\<close> bytes into
  \<^verbatim>\<open>rd_buf\<close> (growing as needed)"; "growth is monotonic within a connection".
\<close>

definition read_payload :: "nat \<Rightarrow> buffers \<Rightarrow> buffers" where
  "read_payload payload_size B =
     (if payload_size > m_rd_size B then B\<lparr>m_rd_size := payload_size\<rparr> else B)"

text \<open>
  Modelled from the spec: \<^verbatim>\<open>Protocol_impl::write_msg\<close> is declared in the source and
  defined outside it. It "serializes \<^verbatim>\<open>msg\<close> into a contiguous byte region at offset 5
  of \<^verbatim>\<open>wr_buf\<close>, growing the buffer if the serialized length + 5 > current capacity,
  failing with \<^verbatim>\<open>Oversize\<close> if total > \<^verbatim>\<open>MAX_FRAME\<close>". The argument is the serialized
  length of the message.
\<close>

definition write_msg :: "nat \<Rightarrow> buffers \<Rightarrow> Error + buffers" where
  "write_msg len B =
     (let total = len + header_length
      in if total > max_wr_size then Inl Oversize
         else Inr (if total > m_wr_size B then B\<lparr>m_wr_size := total\<rparr> else B))"

text \<open>
  Modelled from the spec: what an engine does to its buffers over its life. It receives
  frames (the 5 header bytes decide the payload read) and sends messages, one at a time.
  An error ends the run: it leaves "the engine in a state where only teardown is
  defined".
\<close>

datatype io = Recv bytes | Send nat

fun run :: "io list \<Rightarrow> buffers \<Rightarrow> buffers" where
  "run [] B = B"
| "run (Recv hdr # ios) B =
     (case read_header_done hdr of
        Inl e \<Rightarrow> B
      | Inr h \<Rightarrow> run ios (read_payload (h_payload_size h) B))"
| "run (Send len # ios) B =
     (case write_msg len B of
        Inl e \<Rightarrow> B
      | Inr B' \<Rightarrow> run ios B')"

section \<open>The protocol engine and its receive operation\<close>

text \<open>
  A frame as the byte stream delivers it: its type tag and its payload (the size field
  of the header is the length of the payload plus one).
\<close>

record frame =
  f_type :: msg_type_t
  f_payload :: bytes

text \<open>
  Modelled from the spec: where the engine stands in the incoming stream. The source
  keeps it in \<^verbatim>\<open>m_msg_state\<close> and \<^verbatim>\<open>m_rd_op\<close>, which only code outside the sources
  at hand reads and writes. "\<^verbatim>\<open>rd_msg\<close>: state \<open>\<in>\<close> {Idle, AwaitHeader, AwaitPayload}".
\<close>

datatype rd_state = Idle | AwaitHeader | AwaitPayload

text \<open>
  \<^verbatim>\<open>class Protocol_impl\<close>: the side from which messages are received, the position
  in the incoming stream, the frames that the stream \<^verbatim>\<open>m_str\<close> has yet to deliver, and
  the current receive operation (\<^verbatim>\<open>scoped_ptr<Op> m_rcv_op\<close>, empty or owning one).
\<close>

record 'p Protocol_impl =
  m_side :: Protocol_side
  rd_msg :: rd_state
  m_str :: "frame list"
  m_rcv_op :: "'p Op_rcv option"

text \<open>
  Modelled from the spec: \<^verbatim>\<open>Protocol_impl::read_header\<close> as a receive operation
  calls it to begin a stage, "at the current \<^verbatim>\<open>rd_msg\<close> position (new header if no
  frame in flight; continue payload/dispatch if mid-frame)". The source's comment on
  its declaration: "If header was already read, it does nothing."
\<close>

definition read_header :: "'p Protocol_impl \<Rightarrow> 'p Protocol_impl" where
  "read_header P =
     (case rd_msg P of
        Idle \<Rightarrow> P\<lparr>rd_msg := AwaitHeader\<rparr>
      | AwaitHeader \<Rightarrow> P
      | AwaitPayload \<Rightarrow> P)"

text \<open>
  \<^verbatim>\<open>void read_msg(Processor_base &prc)
  { m_prc= &prc; m_proto.read_header(); m_stage= HEADER; }\<close>
  The operation holds a reference \<^verbatim>\<open>m_proto\<close> to the engine, so the method acts on
  both.
\<close>

definition read_msg ::
  "'p \<Rightarrow> 'p Op_rcv \<Rightarrow> 'p Protocol_impl \<Rightarrow> 'p Op_rcv \<times> 'p Protocol_impl" where
  "read_msg prc op P =
     (let op1 = op\<lparr>m_prc := Some prc\<rparr>;
          P1 = read_header P;
          op2 = op1\<lparr>m_stage := HEADER\<rparr>
      in (op2, P1))"

text \<open>
  The template parameter \<^verbatim>\<open>RCV\<close> of \<^verbatim>\<open>rcv_start\<close>, a class derived from
  \<^verbatim>\<open>Op_rcv\<close>: what \<^verbatim>\<open>new Rcv(*this)\<close> constructs, and its method \<^verbatim>\<open>resume\<close>.
\<close>

record 'p Rcv =
  Rcv_new :: "'p Op_rcv"
  Rcv_resume :: "'p \<Rightarrow> 'p Op_rcv \<Rightarrow> 'p Protocol_impl \<Rightarrow> 'p Op_rcv \<times> 'p Protocol_impl"

text \<open>
  Modelled from the spec: the method \<^verbatim>\<open>resume\<close> of the receive classes, none of which
  is in the sources at hand. "\<^verbatim>\<open>recv_op.resume(proc)\<close> sets the active processor and
  begins a new stage at the current \<^verbatim>\<open>rd_msg\<close> position", which is what
  \<^verbatim>\<open>Op_rcv::read_msg(prc)\<close> does.
\<close>

definition resume ::
  "'p \<Rightarrow> 'p Op_rcv \<Rightarrow> 'p Protocol_impl \<Rightarrow> 'p Op_rcv \<times> 'p Protocol_impl" where
  "resume prc op P = read_msg prc op P"

text \<open>
  \<^verbatim>\<open>template <class Rcv, class Prc> Protocol::Op& Protocol_impl::rcv_start(Prc &prc)\<close>:
  \<^verbatim>\<open>if (m_rcv_op && m_rcv_op->is_done()) m_rcv_op.reset();\<close>
  \<^verbatim>\<open>if (!m_rcv_op) m_rcv_op.reset(new Rcv(*this));\<close>
  \<^verbatim>\<open>static_cast<Rcv*>(m_rcv_op.get())->resume(prc); return *m_rcv_op;\<close>
  An operation that is already there is taken to be of class \<^verbatim>\<open>Rcv\<close>, as the
  source's comment says ("it is assumed that it is of type RCV"). The operation
  returned is the \<^verbatim>\<open>m_rcv_op\<close> of the engine afterwards.
\<close>

definition rcv_start :: "'p Rcv \<Rightarrow> 'p \<Rightarrow> 'p Protocol_impl \<Rightarrow> 'p Protocol_impl" where
  "rcv_start R prc P =
     (let P1 = (case m_rcv_op P of
                  Some op \<Rightarrow> if is_done op then P\<lparr>m_rcv_op := None\<rparr> else P
                | None \<Rightarrow> P);
          P2 = (case m_rcv_op P1 of
                  None \<Rightarrow> P1\<lparr>m_rcv_op := Some (Rcv_new R)\<rparr>
                | Some op \<Rightarrow> P1)
      in case m_rcv_op P2 of
           Some op \<Rightarrow>
             (case Rcv_resume R prc op P2 of (op', P3) \<Rightarrow> P3\<lparr>m_rcv_op := Some op'\<rparr>)
         | None \<Rightarrow> P2)"

text \<open>
  What a receive stage needs besides the operation and the stream: the message type
  constants, the overrides of the receive class, the side, the registry of decoders
  (for a side and a type tag, the decoder of the payload if there is one; a decoder
  fails on a malformed payload), and two answers of a processor: whether it asks for
  the raw payload, and whether its \<^verbatim>\<open>message_end()\<close> asks to stop.
\<close>

record 'p rcv_env =
  env_msg_type :: msg_type
  env_virt :: "'p Op_rcv_virt"
  env_side :: Protocol_side
  env_registry :: "Protocol_side \<Rightarrow> msg_type_t \<Rightarrow> (bytes \<Rightarrow> Message option) option"
  env_raw_payload :: "'p \<Rightarrow> bool"
  env_message_end_stop :: "'p \<Rightarrow> bool"

text \<open>
  The outcome of one stage: the calls made in order, the deferred error raised at the
  end of the stage if any, the operation, the frames left on the stream and the
  position in it.
\<close>

record 'p rcv_result =
  r_calls :: "'p call list"
  r_raised :: "Error option"
  r_op :: "'p Op_rcv"
  r_rest :: "frame list"
  r_rd :: rd_state

text \<open>
  Modelled from the spec: \<^verbatim>\<open>Op_rcv::finish\<close> is declared in the source and defined
  outside it. A stage that ends marks the operation completed, and marks it
  \<^verbatim>\<open>DONE\<close> when \<open>done\<close> holds. "At any stage boundary where a deferred error is
  present, throw/report it before returning; clear it so it is not re-raised."
\<close>

definition finish ::
  "bool \<Rightarrow> 'p call list \<Rightarrow> 'p Op_rcv \<Rightarrow> frame list \<Rightarrow> rd_state \<Rightarrow> 'p rcv_result" where
  "finish done cs op rest rd =
     (let op1 = op\<lparr>m_completed := True, m_stage := (if done then DONE else m_stage op)\<rparr>
      in case throw_saved_error op1 of
           (thrown, op2) \<Rightarrow>
             \<lparr>r_calls = cs,
              r_raised = (case thrown of Inl e \<Rightarrow> Some e | Inr u \<Rightarrow> None),
              r_op = op2\<lparr>m_error := None\<rparr>,
              r_rest = rest,
              r_rd = rd\<rparr>)"

text \<open>
  Modelled from the spec: the dispatch stage of \<^verbatim>\<open>Op_rcv::process_payload\<close>, which
  is declared in the source and defined outside it. "Invoke processor callbacks in
  order: \<^verbatim>\<open>processor.message_begin(type, size)\<close>. If \<^verbatim>\<open>processor\<close> also implements
  \<^verbatim>\<open>RawPayload\<close> and requests it, hand the raw byte slice. If the frame is
  \<^verbatim>\<open>Error\<close> ... Else if \<^verbatim>\<open>Notice\<close> ... Else: invoke the registry's dispatch thunk
  ... \<^verbatim>\<open>processor.message_end()\<close> unless suppressed." The middle part is
  \<^verbatim>\<open>Op_rcv::process_msg\<close> of the source. The result is the calls made, whether
  \<^verbatim>\<open>message_end()\<close> asked to stop, and the operation; \<open>None\<close> is undefined
  behaviour (a call through a null \<^verbatim>\<open>m_prc\<close>, or a bad downcast in
  \<^verbatim>\<open>process_msg\<close>).
\<close>

definition dispatch ::
  "'p rcv_env \<Rightarrow> 'p Op_rcv \<Rightarrow> frame \<Rightarrow> Message \<Rightarrow> ('p call list \<times> bool \<times> 'p Op_rcv) option" where
  "dispatch E op f msg =
     (case m_prc op of
        None \<Rightarrow> None
      | Some p \<Rightarrow>
         (case process_msg (env_msg_type E) op (m_msg_type op) msg of
            None \<Rightarrow> None
          | Some cs \<Rightarrow>
              Some ([Call_message_begin p (m_msg_type op) (m_msg_size op)]
                    @ (if env_raw_payload E p then [Call_raw_payload p (f_payload f)] else [])
                    @ cs
                    @ (if m_call_message_end op then [Call_message_end p] else []),
                    m_call_message_end op \<and> env_message_end_stop E p,
                    op)))"

text \<open>
  Modelled from the spec: the payload stage of \<^verbatim>\<open>Op_rcv::process_payload\<close>. "On
  completion: if \<^verbatim>\<open>skip\<close>, discard and go to step 4. Otherwise consult the registry:
  if no decoder for \<^verbatim>\<open>(dir, type)\<close>, set deferred \<^verbatim>\<open>UnknownMessage{type}\<close> and
  \<^verbatim>\<open>skip\<close>. Otherwise decode payload into the message object." A decode failure is
  the deferred error \<^verbatim>\<open>Decode{type, reason}\<close>, and nothing is dispatched.
\<close>

definition payload_stage ::
  "'p rcv_env \<Rightarrow> 'p Op_rcv \<Rightarrow> frame \<Rightarrow> ('p call list \<times> bool \<times> 'p Op_rcv) option" where
  "payload_stage E op f =
     (if m_skip op then Some ([], False, op)
      else
        (case env_registry E (env_side E) (f_type f) of
           None \<Rightarrow> Some ([], False, (save_error (UnknownMessage (f_type f)) op)\<lparr>m_skip := True\<rparr>)
         | Some decoder \<Rightarrow>
            (case decoder (f_payload f) of
               None \<Rightarrow> Some ([], False, (save_error (Decode (f_type f)) op)\<lparr>m_skip := True\<rparr>)
             | Some msg \<Rightarrow> dispatch E op f msg)))"

text \<open>
  Modelled from the spec: the header stage of \<^verbatim>\<open>Op_rcv::do_read_msg\<close>, which is
  declared in the source and defined outside it. "Begin \<^verbatim>\<open>read_header()\<close>; when
  complete, call \<^verbatim>\<open>next_msg(type)\<close>: ... Value \<^verbatim>\<open>Unexpected\<close>: save a deferred
  \<^verbatim>\<open>UnexpectedMessage{type}\<close> error and set \<^verbatim>\<open>skip = true\<close> (payload is drained
  but not decoded)." When the header was consumed by an earlier stage that stopped on
  it, the receive "resumes directly at Payload". \<^verbatim>\<open>next_msg\<close> is that of the source.
\<close>

definition header_stage ::
  "'p rcv_env \<Rightarrow> rd_state \<Rightarrow> 'p Op_rcv \<Rightarrow> frame \<Rightarrow> Next_msg \<times> 'p Op_rcv" where
  "header_stage E rd op f =
     (let op1 = op\<lparr>m_msg_type := f_type f, m_msg_size := length (f_payload f)\<rparr>;
          nm = (if rd = AwaitPayload then EXPECTED
                else next_msg (env_msg_type E) (env_virt E) op1 (f_type f))
      in (nm,
          case nm of
            EXPECTED \<Rightarrow> op1\<lparr>m_skip := False\<rparr>
          | UNEXPECTED \<Rightarrow> (save_error (UnexpectedMessage (f_type f)) op1)\<lparr>m_skip := True\<rparr>
          | STOP \<Rightarrow> op1))"

text \<open>
  Modelled from the spec: \<^verbatim>\<open>Op_rcv::do_read_msg\<close>, declared in the source and defined
  outside it, run until the stage ends, on a stream that delivers whole frames and then
  ends. Per frame: "1. Header stage. ... Value \<^verbatim>\<open>Stop\<close>: finish the current stage;
  leave the header consumed so the next RecvOp resumes directly at Payload.
  2. Payload stage. 3. Dispatch stage.
  4. Continuation. Call \<^verbatim>\<open>process_next()\<close>: \<^verbatim>\<open>Notice\<close>: always continue (loop to
  step 1). \<^verbatim>\<open>Error\<close>: never continue; mark \<^verbatim>\<open>Done\<close>. Otherwise:
  \<^verbatim>\<open>do_process_next()\<close>; default \<^verbatim>\<open>false\<close> (mark stage complete)."
  The loop also stops when the processor's \<^verbatim>\<open>message_end()\<close> asks to ("unless the
  processor explicitly requests stop"). A stream that ends where a header is awaited is
  the deferred error \<^verbatim>\<open>Eos\<close>. \<^verbatim>\<open>process_next\<close> is that of the source.
\<close>

fun do_read_msg ::
  "'p rcv_env \<Rightarrow> rd_state \<Rightarrow> 'p Op_rcv \<Rightarrow> frame list \<Rightarrow> 'p rcv_result option" where
  "do_read_msg E rd op [] = Some (finish False [] (save_error Eos op) [] rd)"
| "do_read_msg E rd op (f # fs) =
     (case header_stage E rd op f of
        (nm, op2) \<Rightarrow>
          if nm = STOP then Some (finish False [] op2 (f # fs) AwaitPayload)
          else
            (case payload_stage E (op2\<lparr>m_stage := PAYLOAD\<rparr>) f of
               None \<Rightarrow> None
             | Some (cs, stop, op3) \<Rightarrow>
                 if \<not> stop \<and> process_next (env_msg_type E) (env_virt E) op3
                 then map_option (\<lambda>r. r\<lparr>r_calls := cs @ r_calls r\<rparr>)
                        (do_read_msg E Idle (op3\<lparr>m_stage := HEADER\<rparr>) fs)
                 else Some (finish (m_msg_type op3 = msg_type_Error (env_msg_type E))
                              cs op3 fs Idle)))"

text \<open>
  A concrete client-side setting for the examples: Error is tag 1 and Notice tag 11, the
  receive class expects rows (tag 13) besides, and the registry decodes these three.
\<close>

definition example_env :: "nat rcv_env" where
  "example_env =
     \<lparr>env_msg_type = \<lparr>msg_type_Error = 1, msg_type_Notice = 11\<rparr>,
      env_virt = \<lparr>v_do_next_msg = (\<lambda>op t. if t = 13 then EXPECTED else UNEXPECTED),
                  v_do_process_next = do_process_next\<rparr>,
      env_side = SERVER,
      env_registry = (\<lambda>side t.
         if side = SERVER \<and> t = 1
           then Some (\<lambda>b. Some (Msg_Error (Mysqlx_Error 1045 0 ''28000'' ''Access denied'')))
         else if side = SERVER \<and> t = 11
           then Some (\<lambda>b. Some (Msg_Notice_Frame (Mysqlx_Notice_Frame 1 2 b)))
         else if side = SERVER \<and> t = 13
           then Some (\<lambda>b. Some (Msg_other ''Mysqlx::Resultset::Row'' b))
         else None),
      env_raw_payload = (\<lambda>p. False),
      env_message_end_stop = (\<lambda>p. False)\<rparr>"

definition example_op :: "nat Op_rcv" where
  "example_op =
     \<lparr>m_completed = False, m_error = None, m_stage = HEADER, m_prc = Some 7,
      m_msg_type = 0, m_msg_size = 0, m_read_window = 0, m_call_message_end = True,
      m_skip = False\<rparr>"

definition example_engine :: "nat Protocol_impl" where
  "example_engine =
     \<lparr>m_side = SERVER, rd_msg = Idle,
      m_str = [\<lparr>f_type = 11, f_payload = [1, 2]\<rparr>, \<lparr>f_type = 1, f_payload = [3]\<rparr>],
      m_rcv_op = Some example_op\<rparr>"

section \<open>Properties\<close>

subsection \<open>Header check and continuation of a receive operation\<close>

text \<open>
  C4. For every message type \<open>t\<close>, \<^verbatim>\<open>Op_rcv::next_msg(t)\<close> returns \<^verbatim>\<open>EXPECTED\<close>
  when \<open>t\<close> is Error or Notice, and for every other \<open>t\<close> it returns what the virtual
  \<^verbatim>\<open>do_next_msg(t)\<close> returns, whose default is \<^verbatim>\<open>UNEXPECTED\<close>.
\<close>

theorem next_msg_cases:
  "next_msg mt v op (msg_type_Error mt) = EXPECTED \<and>
   next_msg mt v op (msg_type_Notice mt) = EXPECTED \<and>
   (t \<noteq> msg_type_Error mt \<and> t \<noteq> msg_type_Notice mt \<longrightarrow>
      next_msg mt v op t = v_do_next_msg v op t) \<and>
   v_do_next_msg Op_rcv_default op t = UNEXPECTED"
  by (simp add: next_msg_def Op_rcv_default_def do_next_msg_def)

theorem next_msg_cases_witness:
  "(5::msg_type_t) \<noteq> 1 \<and> (5::msg_type_t) \<noteq> 11 \<and>
   next_msg \<lparr>msg_type_Error = 1, msg_type_Notice = 11\<rparr> Op_rcv_default
     \<lparr>m_completed = False, m_error = None, m_stage = HEADER, m_prc = Some (0::nat),
      m_msg_type = 0, m_msg_size = 0, m_read_window = 0, m_call_message_end = True,
      m_skip = False\<rparr> 5 = UNEXPECTED"
  using next_msg_cases [of "\<lparr>msg_type_Error = 1, msg_type_Notice = 11\<rparr>" Op_rcv_default
     "\<lparr>m_completed = False, m_error = None, m_stage = HEADER, m_prc = Some (0::nat),
      m_msg_type = 0, m_msg_size = 0, m_read_window = 0, m_call_message_end = True,
      m_skip = False\<rparr>" 5]
  by simp

text \<open>
  C3. \<^verbatim>\<open>Op_rcv::process_next\<close> returns true when the type of the message just
  processed is Notice, and for every type other than Notice and Error it returns what
  \<^verbatim>\<open>do_process_next()\<close> returns, whose default is false. Hence, with the default, the
  receive goes on to the next frame exactly when the message was a Notice: it never
  stops on a Notice, and it stops after the first message that is not one.
\<close>

theorem process_next_cases:
  "(m_msg_type op = msg_type_Notice mt \<longrightarrow> process_next mt v op) \<and>
   (m_msg_type op \<noteq> msg_type_Notice mt \<and> m_msg_type op \<noteq> msg_type_Error mt \<longrightarrow>
      process_next mt v op = v_do_process_next v op) \<and>
   v_do_process_next Op_rcv_default op = False \<and>
   (process_next mt Op_rcv_default op \<longleftrightarrow> m_msg_type op = msg_type_Notice mt)"
  by (auto simp add: process_next_def Op_rcv_default_def do_process_next_def)

theorem process_next_cases_witness:
  "process_next \<lparr>msg_type_Error = 1, msg_type_Notice = 11\<rparr> Op_rcv_default
     \<lparr>m_completed = False, m_error = None, m_stage = PAYLOAD, m_prc = Some (0::nat),
      m_msg_type = 11, m_msg_size = 0, m_read_window = 0, m_call_message_end = True,
      m_skip = False\<rparr> \<and>
   \<not> process_next \<lparr>msg_type_Error = 1, msg_type_Notice = 11\<rparr> Op_rcv_default
     \<lparr>m_completed = False, m_error = None, m_stage = PAYLOAD, m_prc = Some (0::nat),
      m_msg_type = 13, m_msg_size = 0, m_read_window = 0, m_call_message_end = True,
      m_skip = False\<rparr>"
  using process_next_cases [of
     "\<lparr>m_completed = False, m_error = None, m_stage = PAYLOAD, m_prc = Some (0::nat),
      m_msg_type = 11, m_msg_size = 0, m_read_window = 0, m_call_message_end = True,
      m_skip = False\<rparr>" "\<lparr>msg_type_Error = 1, msg_type_Notice = 11\<rparr>" Op_rcv_default]
    process_next_cases [of
     "\<lparr>m_completed = False, m_error = None, m_stage = PAYLOAD, m_prc = Some (0::nat),
      m_msg_type = 13, m_msg_size = 0, m_read_window = 0, m_call_message_end = True,
      m_skip = False\<rparr>" "\<lparr>msg_type_Error = 1, msg_type_Notice = 11\<rparr>" Op_rcv_default]
  by simp

subsection \<open>Errors and notices in \<^verbatim>\<open>process_msg\<close>\<close>

text \<open>
  C1. When the type of the received frame (the member \<^verbatim>\<open>m_msg_type\<close>) is Error,
  \<^verbatim>\<open>Op_rcv::process_msg\<close> makes exactly one call, \<^verbatim>\<open>error\<close> on the operation's
  processor, with the message's code, the severity ERROR, the SQL state and the message
  text. When it is Notice, it makes exactly one call,
  \<^verbatim>\<open>notice(type, scope, payload bytes)\<close>. In neither case is \<^verbatim>\<open>do_process_msg\<close>
  invoked, whatever the argument \<^verbatim>\<open>type\<close> is.
\<close>

theorem process_msg_error_notice:
  assumes "m_prc op = Some ep"
  shows
    "(m_msg_type op = msg_type_Error mt \<and> msg_type_Error mt \<noteq> msg_type_Notice mt \<and>
        msg = Msg_Error err \<longrightarrow>
      process_msg mt op type msg =
        Some [Call_error ep (err_code err) Severity_ERROR (sql_state_t (err_sql_state err))
                (err_msg err)]) \<and>
     (m_msg_type op = msg_type_Notice mt \<and> msg = Msg_Notice_Frame notice \<longrightarrow>
      process_msg mt op type msg =
        Some [Call_notice ep (notice_type notice) (ucast (notice_scope notice))
                (notice_payload notice)]) \<and>
     (m_msg_type op = msg_type_Error mt \<or> m_msg_type op = msg_type_Notice mt \<longrightarrow>
      (\<forall>cs. process_msg mt op type msg = Some cs \<longrightarrow> \<not> list_ex is_do_process_msg cs))"
  using assms
  by (auto simp add: process_msg_def Severity_ERROR_def split: Message.splits)

theorem process_msg_error_notice_witness:
  "process_msg \<lparr>msg_type_Error = 1, msg_type_Notice = 11\<rparr>
     \<lparr>m_completed = False, m_error = None, m_stage = PAYLOAD, m_prc = Some (7::nat),
      m_msg_type = 1, m_msg_size = 20, m_read_window = 0, m_call_message_end = True,
      m_skip = False\<rparr> 1 (Msg_Error (Mysqlx_Error 1045 0 ''28000'' ''Access denied'')) =
     Some [Call_error 7 1045 Severity_ERROR (sql_state_t ''28000'') ''Access denied''] \<and>
   process_msg \<lparr>msg_type_Error = 1, msg_type_Notice = 11\<rparr>
     \<lparr>m_completed = False, m_error = None, m_stage = PAYLOAD, m_prc = Some (7::nat),
      m_msg_type = 11, m_msg_size = 3, m_read_window = 0, m_call_message_end = True,
      m_skip = False\<rparr> 11 (Msg_Notice_Frame (Mysqlx_Notice_Frame 1 2 [100, 101])) =
     Some [Call_notice 7 1 2 [100, 101]]"
  using process_msg_error_notice [of
     "\<lparr>m_completed = False, m_error = None, m_stage = PAYLOAD, m_prc = Some (7::nat),
      m_msg_type = 1, m_msg_size = 20, m_read_window = 0, m_call_message_end = True,
      m_skip = False\<rparr>" 7 "\<lparr>msg_type_Error = 1, msg_type_Notice = 11\<rparr>"
     "Msg_Error (Mysqlx_Error 1045 0 ''28000'' ''Access denied'')"
     "Mysqlx_Error 1045 0 ''28000'' ''Access denied''" 1]
    process_msg_error_notice [of
     "\<lparr>m_completed = False, m_error = None, m_stage = PAYLOAD, m_prc = Some (7::nat),
      m_msg_type = 11, m_msg_size = 3, m_read_window = 0, m_call_message_end = True,
      m_skip = False\<rparr>" 7 "\<lparr>msg_type_Error = 1, msg_type_Notice = 11\<rparr>"
     "Msg_Notice_Frame (Mysqlx_Notice_Frame 1 2 [100, 101])" _ 11
     "Mysqlx_Notice_Frame 1 2 [100, 101]"]
  by simp

subsection \<open>Moving a result\<close>

text \<open>
  C10. For two distinct \<^verbatim>\<open>BaseResult\<close> objects, after \<^verbatim>\<open>init(move(other))\<close> the
  destination's \<^verbatim>\<open>m_pos\<close> is 0 and its \<^verbatim>\<open>m_impl\<close> is the source's previous
  \<^verbatim>\<open>m_impl\<close>; the destination owns the implementation if and only if the source owned
  it before, the source does not own it afterwards, so at most one of the two owns it.
  The source keeps its \<^verbatim>\<open>m_impl\<close> and \<^verbatim>\<open>m_pos\<close>, and no other object changes.
\<close>

theorem init_moves_ownership:
  assumes "this \<noteq> other"
  shows
    "m_pos (init this other h this) = 0 \<and>
     m_impl (init this other h this) = m_impl (h other) \<and>
     (m_owns_impl (init this other h this) \<longleftrightarrow> m_owns_impl (h other)) \<and>
     \<not> m_owns_impl (init this other h other) \<and>
     \<not> (m_owns_impl (init this other h this) \<and> m_owns_impl (init this other h other)) \<and>
     m_impl (init this other h other) = m_impl (h other) \<and>
     m_pos (init this other h other) = m_pos (h other) \<and>
     (\<forall>a. a \<noteq> this \<and> a \<noteq> other \<longrightarrow> init this other h a = h a)"
  using assms by (simp add: init_def Let_def)

theorem init_moves_ownership_witness:
  "(0::nat) \<noteq> 1 \<and>
   init 0 1 ((\<lambda>a. \<lparr>m_impl = None, m_owns_impl = True, m_pos = 0\<rparr>)
              (0 := \<lparr>m_impl = Some 40, m_owns_impl = False, m_pos = 9\<rparr>,
               1 := \<lparr>m_impl = Some 50, m_owns_impl = True, m_pos = 3\<rparr>)) 0
     = \<lparr>m_impl = Some 50, m_owns_impl = True, m_pos = 0\<rparr> \<and>
   init 0 1 ((\<lambda>a. \<lparr>m_impl = None, m_owns_impl = True, m_pos = 0\<rparr>)
              (0 := \<lparr>m_impl = Some 40, m_owns_impl = False, m_pos = 9\<rparr>,
               1 := \<lparr>m_impl = Some 50, m_owns_impl = True, m_pos = 3\<rparr>)) 1
     = \<lparr>m_impl = Some 50, m_owns_impl = False, m_pos = 3\<rparr>"
  using init_moves_ownership [of 0 1
      "(\<lambda>a. \<lparr>m_impl = None, m_owns_impl = True, m_pos = 0\<rparr>)
              (0 := \<lparr>m_impl = Some 40, m_owns_impl = False, m_pos = 9\<rparr>,
               1 := \<lparr>m_impl = Some 50, m_owns_impl = True, m_pos = 3\<rparr>)"]
  by (simp add: init_def Let_def)

text \<open>
  When \<^verbatim>\<open>init\<close> is given the object itself (a self-move through \<^verbatim>\<open>operator=\<close>),
  the else branch sets \<^verbatim>\<open>m_owns_impl\<close> and then clears it through the alias, so the
  object never owns the implementation afterwards.
\<close>

lemma init_self_move:
  "\<not> m_owns_impl (init this this h this) \<and> m_impl (init this this h this) = m_impl (h this)"
  by (simp add: init_def Let_def)

subsection \<open>Safe processors\<close>

lemmas safe_scalar_defs =
  safe_null_def safe_str_def safe_str_cs_def safe_num_int64_def safe_num_uint64_def
  safe_num_float_def safe_num_double_def safe_yesno_def safe_octets_def

lemmas safe_expr_defs =
  safe_val_def safe_op_def safe_call_def safe_var_def safe_id_def safe_id_path_def
  safe_id_doc_path_def safe_placeholder_def safe_placeholder_name_def
  safe_placeholder_pos_def

text \<open>
  C9. Every callback of the \<^verbatim>\<open>Safe_prc\<close> wrappers over \<^verbatim>\<open>Scalar_processor\<close> and
  \<^verbatim>\<open>Expr_processor\<close>, at every argument: on a null pointer the call changes nothing
  (and \<^verbatim>\<open>val\<close>, \<^verbatim>\<open>op\<close> and \<^verbatim>\<open>call\<close> return the wrapper of a null pointer); on a
  pointer to a processor \<open>p\<close> (respectively \<open>q\<close>) it is the same callback of that
  processor with the same arguments, its result wrapped where it returns a pointer.
\<close>

theorem Safe_prc_forwards:
  "safe_null (Safe_prc None) s = s \<and>
   safe_str (Safe_prc None) val s = s \<and>
   safe_str_cs (Safe_prc None) cs val s = s \<and>
   safe_num_int64 (Safe_prc None) i s = s \<and>
   safe_num_uint64 (Safe_prc None) u s = s \<and>
   safe_num_float (Safe_prc None) f s = s \<and>
   safe_num_double (Safe_prc None) d s = s \<and>
   safe_yesno (Safe_prc None) b s = s \<and>
   safe_octets (Safe_prc None) data s = s \<and>
   safe_null (Safe_prc (Some p)) s = prc_null p s \<and>
   safe_str (Safe_prc (Some p)) val s = prc_str p val s \<and>
   safe_str_cs (Safe_prc (Some p)) cs val s = prc_str_cs p cs val s \<and>
   safe_num_int64 (Safe_prc (Some p)) i s = prc_num_int64 p i s \<and>
   safe_num_uint64 (Safe_prc (Some p)) u s = prc_num_uint64 p u s \<and>
   safe_num_float (Safe_prc (Some p)) f s = prc_num_float p f s \<and>
   safe_num_double (Safe_prc (Some p)) d s = prc_num_double p d s \<and>
   safe_yesno (Safe_prc (Some p)) b s = prc_yesno p b s \<and>
   safe_octets (Safe_prc (Some p)) data s = prc_octets p data s \<and>
   safe_val (Safe_prc None) s = (Safe_prc None, s) \<and>
   safe_op (Safe_prc None) name s = (Safe_prc None, s) \<and>
   safe_call (Safe_prc None) func s = (Safe_prc None, s) \<and>
   safe_var (Safe_prc None) name s = s \<and>
   safe_id (Safe_prc None) name db_obj s = s \<and>
   safe_id_path (Safe_prc None) name db_obj path s = s \<and>
   safe_id_doc_path (Safe_prc None) path s = s \<and>
   safe_placeholder (Safe_prc None) s = s \<and>
   safe_placeholder_name (Safe_prc None) name s = s \<and>
   safe_placeholder_pos (Safe_prc None) pos s = s \<and>
   safe_val (Safe_prc (Some q)) s = (Safe_prc (fst (prc_val q s)), snd (prc_val q s)) \<and>
   safe_op (Safe_prc (Some q)) name s
     = (Safe_prc (fst (prc_op q name s)), snd (prc_op q name s)) \<and>
   safe_call (Safe_prc (Some q)) func s
     = (Safe_prc (fst (prc_call q func s)), snd (prc_call q func s)) \<and>
   safe_var (Safe_prc (Some q)) name s = prc_var q name s \<and>
   safe_id (Safe_prc (Some q)) name db_obj s = prc_id q name db_obj s \<and>
   safe_id_path (Safe_prc (Some q)) name db_obj path s = prc_id_path q name db_obj path s \<and>
   safe_id_doc_path (Safe_prc (Some q)) path s = prc_id_doc_path q path s \<and>
   safe_placeholder (Safe_prc (Some q)) s = prc_placeholder q s \<and>
   safe_placeholder_name (Safe_prc (Some q)) name s = prc_placeholder_name q name s \<and>
   safe_placeholder_pos (Safe_prc (Some q)) pos s = prc_placeholder_pos q pos s"
  unfolding safe_scalar_defs safe_expr_defs by simp

subsection \<open>Dispatch by message type\<close>

lemma find_case_label:
  "distinct (map (\<lambda>e. (e_side e, e_tag e)) es) \<Longrightarrow> e \<in> set es \<Longrightarrow>
   find (\<lambda>x. e_side x = e_side e \<and> e_tag x = e_tag e) es = Some e"
proof (induction es)
  case Nil
  then show ?case by simp
next
  case (Cons a es)
  then show ?case by (auto simp add: image_iff)
qed

lemma find_no_label:
  "(\<forall>e\<in>set es. e_side e = side \<longrightarrow> e_tag e \<noteq> t) \<Longrightarrow>
   find (\<lambda>x. e_side x = side \<and> e_tag x = t) es = None"
  by (simp add: find_None_iff)

text \<open>
  C7. The case labels of one switch are distinct. Then, for each side, the switch of
  \<^verbatim>\<open>Message_dispatcher::process_msg_with\<close> covers every message that
  \<^verbatim>\<open>MSG_LIST\<close> lists for that side, handing the message to the base class as that
  entry's class; and for every type tag that the list does not have for that side the
  default arm raises the error "unknown server message type".
\<close>

theorem process_msg_with_total:
  assumes "distinct (map (\<lambda>e. (e_side e, e_tag e)) MSG_LIST)"
  shows
    "(\<forall>e\<in>set MSG_LIST.
        process_msg_with MSG_LIST (e_side e) (e_tag e) msg prc
          = Inr (Base_process_msg_with (e_MSG e) msg prc)) \<and>
     (\<forall>side t. (\<forall>e\<in>set MSG_LIST. e_side e = side \<longrightarrow> e_tag e \<noteq> t) \<longrightarrow>
        process_msg_with MSG_LIST side t msg prc
          = Inl (Generic_error ''unknown server message type''))"
proof (intro conjI ballI allI impI)
  fix e assume "e \<in> set MSG_LIST"
  from find_case_label [OF assms this]
  show "process_msg_with MSG_LIST (e_side e) (e_tag e) msg prc
          = Inr (Base_process_msg_with (e_MSG e) msg prc)"
    by (cases "e_side e") (simp_all add: process_msg_with_def)
next
  fix side t assume "\<forall>e\<in>set MSG_LIST. e_side e = side \<longrightarrow> e_tag e \<noteq> t"
  from find_no_label [OF this]
  show "process_msg_with MSG_LIST side t msg prc
          = Inl (Generic_error ''unknown server message type'')"
    by (cases side) (simp_all add: process_msg_with_def)
qed

theorem process_msg_with_total_witness:
  "process_msg_with
     [\<lparr>e_side = SERVER, e_MSG = ''Mysqlx::Ok'', e_tag = 0\<rparr>,
      \<lparr>e_side = SERVER, e_MSG = ''Mysqlx::Error'', e_tag = 1\<rparr>,
      \<lparr>e_side = CLIENT, e_MSG = ''Mysqlx::Sql::StmtExecute'', e_tag = 12\<rparr>]
     CLIENT 12 (Msg_other ''Mysqlx::Sql::StmtExecute'' [8, 1]) (3::nat)
     = Inr (Base_process_msg_with ''Mysqlx::Sql::StmtExecute''
              (Msg_other ''Mysqlx::Sql::StmtExecute'' [8, 1]) 3) \<and>
   process_msg_with
     [\<lparr>e_side = SERVER, e_MSG = ''Mysqlx::Ok'', e_tag = 0\<rparr>,
      \<lparr>e_side = SERVER, e_MSG = ''Mysqlx::Error'', e_tag = 1\<rparr>,
      \<lparr>e_side = CLIENT, e_MSG = ''Mysqlx::Sql::StmtExecute'', e_tag = 12\<rparr>]
     SERVER 12 (Msg_other ''Mysqlx::Sql::StmtExecute'' [8, 1]) (3::nat)
     = Inl (Generic_error ''unknown server message type'')"
  using process_msg_with_total [of
     "[\<lparr>e_side = SERVER, e_MSG = ''Mysqlx::Ok'', e_tag = 0\<rparr>,
      \<lparr>e_side = SERVER, e_MSG = ''Mysqlx::Error'', e_tag = 1\<rparr>,
      \<lparr>e_side = CLIENT, e_MSG = ''Mysqlx::Sql::StmtExecute'', e_tag = 12\<rparr>]"
     "Msg_other ''Mysqlx::Sql::StmtExecute'' [8, 1]" "3::nat"]
  by (simp add: process_msg_with_def)

subsection \<open>Frame size limit\<close>

lemma run_bounded:
  "m_rd_size B \<le> max_rd_size \<Longrightarrow> m_wr_size B \<le> max_wr_size \<Longrightarrow>
   m_rd_size (run ios B) \<le> max_rd_size \<and> m_wr_size (run ios B) \<le> max_wr_size"
proof (induction ios B rule: run.induct)
  case (1 B)
  then show ?case by simp
next
  case (2 hdr ios B)
  show ?case
  proof (cases "read_header_done hdr")
    case (Inl e)
    with 2 show ?thesis by simp
  next
    case (Inr h)
    then have "h_payload_size h \<le> max_rd_size"
      by (auto simp add: read_header_done_def Let_def split: list.splits if_splits)
    with 2 Inr show ?thesis by (simp add: read_payload_def)
  qed
next
  case (3 len ios B)
  show ?case
  proof (cases "write_msg len B")
    case (Inl e)
    with 3 show ?thesis by simp
  next
    case (Inr B')
    with 3 show ?thesis
      by (auto simp add: write_msg_def Let_def split: if_splits)
  qed
qed

text \<open>
  C8. \<^verbatim>\<open>max_rd_size\<close> and \<^verbatim>\<open>max_wr_size\<close> are 1 GiB, \<open>2 ^ 30\<close> bytes. A frame
  header that declares a size of 0 or a size greater than that is rejected with an
  error, and a header that is accepted declares a payload of less than \<open>2 ^ 30\<close> bytes.
  Buffers that start within the limit stay within it whatever frames are received and
  whatever messages are sent.
\<close>

theorem max_frame_bound:
  "max_rd_size = 2 ^ 30 \<and> max_wr_size = 2 ^ 30 \<and>
   (unat (le_u32 b0 b1 b2 b3) = 0 \<or> unat (le_u32 b0 b1 b2 b3) > 2 ^ 30 \<longrightarrow>
      read_header_done [b0, b1, b2, b3, t] = Inl Oversize) \<and>
   (read_header_done hdr = Inr h \<longrightarrow> h_payload_size h < 2 ^ 30) \<and>
   (m_rd_size B \<le> max_rd_size \<and> m_wr_size B \<le> max_wr_size \<longrightarrow>
      m_rd_size (run ios B) \<le> 2 ^ 30 \<and> m_wr_size (run ios B) \<le> 2 ^ 30)"
proof -
  have m: "max_rd_size = 2 ^ 30" "max_wr_size = 2 ^ 30"
    by (simp_all add: max_rd_size_def max_wr_size_def)
  have r: "unat (le_u32 b0 b1 b2 b3) = 0 \<or> unat (le_u32 b0 b1 b2 b3) > 2 ^ 30 \<longrightarrow>
      read_header_done [b0, b1, b2, b3, t] = Inl Oversize"
    by (auto simp add: read_header_done_def Let_def m)
  have a: "read_header_done hdr = Inr h \<longrightarrow> h_payload_size h < 2 ^ 30"
    by (auto simp add: read_header_done_def Let_def m split: list.splits if_splits)
  have b: "m_rd_size B \<le> max_rd_size \<and> m_wr_size B \<le> max_wr_size \<longrightarrow>
      m_rd_size (run ios B) \<le> 2 ^ 30 \<and> m_wr_size (run ios B) \<le> 2 ^ 30"
    using run_bounded [of B ios] by (simp add: m)
  from m r a b show ?thesis by blast
qed

theorem max_frame_bound_witness:
  "read_header_done [255, 255, 255, 255, 11] = Inl Oversize \<and>
   read_header_done [0, 0, 0, 0, 5] = Inl Oversize \<and>
   read_header_done [6, 0, 0, 0, 5] = Inr \<lparr>h_type = 5, h_payload_size = 5\<rparr> \<and>
   run [Recv [6, 0, 0, 0, 5], Send 100, Recv [1, 0, 0, 64, 1], Send 7]
       \<lparr>m_rd_size = 2, m_wr_size = 16\<rparr>
     = \<lparr>m_rd_size = 5, m_wr_size = 105\<rparr>"
  using max_frame_bound [of 255 255 255 255 11 "[6, 0, 0, 0, 5]"
      "\<lparr>h_type = 5, h_payload_size = 5\<rparr>" "\<lparr>m_rd_size = 2, m_wr_size = 16\<rparr>"
      "[Recv [6, 0, 0, 0, 5], Send 100, Recv [1, 0, 0, 64, 1], Send 7]"]
  by (simp add: read_header_done_def le_u32_def max_rd_size_def max_wr_size_def
      read_payload_def write_msg_def header_length_def)

subsection \<open>An Error frame ends the receive\<close>

lemma process_msg_Call_error:
  assumes "process_msg mt op t msg = Some cs" and "Call_error p c s st m \<in> set cs"
  shows "cs = [Call_error p c s st m] \<and> m_prc op = Some p \<and>
         m_msg_type op = msg_type_Error mt \<and> msg_type_Error mt \<noteq> msg_type_Notice mt"
  using assms
  by (auto simp add: process_msg_def split: if_splits option.splits Message.splits)

lemma after_Call_error:
  assumes "xs @ x # e = pre @ x # post" and "x \<notin> set xs" and "x \<notin> set e"
  shows "post = e"
  using assms
proof (induction xs arbitrary: pre)
  case Nil
  then show ?case by (cases pre) auto
next
  case (Cons a xs)
  then show ?case by (cases pre) auto
qed

lemma dispatch_Call_error:
  assumes "dispatch E op f msg = Some (cs, stop, op')"
    and "cs = pre @ Call_error p c s st m # post"
  shows "(post = [] \<or> post = [Call_message_end p]) \<and>
         m_msg_type op' = msg_type_Error (env_msg_type E) \<and>
         msg_type_Error (env_msg_type E) \<noteq> msg_type_Notice (env_msg_type E)"
proof -
  let ?x = "Call_error p c s st m"
  from assms(1) obtain q where q: "m_prc op = Some q"
    by (cases "m_prc op") (simp_all add: dispatch_def)
  from assms(1) q obtain pcs where
    pcs: "process_msg (env_msg_type E) op (m_msg_type op) msg = Some pcs"
    by (cases "process_msg (env_msg_type E) op (m_msg_type op) msg")
      (simp_all add: dispatch_def)
  let ?xs = "Call_message_begin q (m_msg_type op) (m_msg_size op)
              # (if env_raw_payload E q then [Call_raw_payload q (f_payload f)] else [])"
  let ?e = "if m_call_message_end op then [Call_message_end q] else []"
  from assms(1) q pcs have cs: "?xs @ pcs @ ?e = cs" and op': "op' = op"
    by (auto simp add: dispatch_def)
  have "?x \<in> set (pre @ ?x # post)" by simp
  then have "?x \<in> set cs" by (simp only: assms(2))
  then have "?x \<in> set (?xs @ pcs @ ?e)" by (simp only: cs)
  then have "?x \<in> set pcs" by (simp split: if_splits)
  from process_msg_Call_error [OF pcs this]
  have one: "pcs = [?x]" and p: "m_prc op = Some p"
    and t: "m_msg_type op = msg_type_Error (env_msg_type E)"
    and d: "msg_type_Error (env_msg_type E) \<noteq> msg_type_Notice (env_msg_type E)"
    by simp_all
  from p q have qp: "q = p" by simp
  from cs have "?xs @ ?x # ?e = cs" by (simp only: one append.simps)
  then have eq: "?xs @ ?x # ?e = pre @ ?x # post" by (simp only: assms(2))
  have "?x \<notin> set ?xs" by simp
  moreover have "?x \<notin> set ?e" by simp
  ultimately have "post = ?e" using eq by (rule after_Call_error [rotated])
  then have "post = [] \<or> post = [Call_message_end p]"
    by (simp add: qp split: if_splits)
  with t d op' show ?thesis by simp
qed

lemma payload_stage_Call_error:
  assumes "payload_stage E op f = Some (cs, stop, op')"
    and "cs = pre @ Call_error p c s st m # post"
  shows "(post = [] \<or> post = [Call_message_end p]) \<and>
         m_msg_type op' = msg_type_Error (env_msg_type E) \<and>
         msg_type_Error (env_msg_type E) \<noteq> msg_type_Notice (env_msg_type E)"
proof -
  from assms(1) obtain msg where "dispatch E op f msg = Some (cs, stop, op')"
    using assms(2) by (auto simp add: payload_stage_def split: if_splits option.splits)
  then show ?thesis using assms(2) by (rule dispatch_Call_error)
qed

lemma finish_fields:
  "r_calls (finish done cs op rest rd) = cs \<and>
   r_rest (finish done cs op rest rd) = rest \<and>
   r_rd (finish done cs op rest rd) = rd \<and>
   m_completed (r_op (finish done cs op rest rd)) \<and>
   m_stage (r_op (finish done cs op rest rd)) = (if done then DONE else m_stage op)"
  by (simp add: finish_def throw_saved_error_def Let_def split: option.splits)

lemma append_skip:
  assumes "xs @ ys = pre @ x # post" and "x \<notin> set xs"
  shows "\<exists>pre'. ys = pre' @ x # post"
  using assms
proof (induction xs arbitrary: pre)
  case Nil
  then show ?case by auto
next
  case (Cons a xs)
  then show ?case by (cases pre) auto
qed

lemma do_read_msg_Call_error:
  assumes "do_read_msg E rd op fs = Some r"
    and "r_calls r = pre @ Call_error p c s st m # post"
  shows "(post = [] \<or> post = [Call_message_end p]) \<and>
         m_completed (r_op r) \<and> m_stage (r_op r) = DONE"
  using assms
proof (induction fs arbitrary: rd op r pre)
  case Nil
  then have "r_calls r = []" by (auto simp add: finish_fields)
  with Nil.prems(2) show ?case by simp
next
  case (Cons f fs)
  let ?mt = "env_msg_type E"
  obtain nm op2 where hs: "header_stage E rd op f = (nm, op2)"
    by (cases "header_stage E rd op f")
  have ne: "r_calls r \<noteq> []" using Cons.prems(2) by simp
  have nstop: "nm \<noteq> STOP"
  proof
    assume "nm = STOP"
    with Cons.prems(1) hs have "r = finish False [] op2 (f # fs) AwaitPayload"
      by simp
    with ne show False by (simp add: finish_fields)
  qed
  obtain cs stop op3 where
    ps: "payload_stage E (op2\<lparr>m_stage := PAYLOAD\<rparr>) f = Some (cs, stop, op3)"
  proof (cases "payload_stage E (op2\<lparr>m_stage := PAYLOAD\<rparr>) f")
    case None
    with Cons.prems(1) hs nstop show ?thesis by simp
  next
    case (Some x)
    with that show ?thesis by (cases x) auto
  qed
  show ?case
  proof (cases "\<not> stop \<and> process_next ?mt (env_virt E) op3")
    case True
    with Cons.prems(1) hs nstop ps obtain r' where
      r': "do_read_msg E Idle (op3\<lparr>m_stage := HEADER\<rparr>) fs = Some r'"
      and r: "r = r'\<lparr>r_calls := cs @ r_calls r'\<rparr>"
      by auto
    have nin: "Call_error p c s st m \<notin> set cs"
    proof
      assume "Call_error p c s st m \<in> set cs"
      then obtain pre' post' where "cs = pre' @ Call_error p c s st m # post'"
        by (auto simp add: in_set_conv_decomp)
      from payload_stage_Call_error [OF ps this] True
      show False by (auto simp add: process_next_def)
    qed
    from r Cons.prems(2) have eq: "cs @ r_calls r' = pre @ Call_error p c s st m # post"
      by simp
    from append_skip [OF eq nin]
    obtain pre' where "r_calls r' = pre' @ Call_error p c s st m # post"
      by blast
    from Cons.IH [OF r' this] have "(post = [] \<or> post = [Call_message_end p]) \<and>
         m_completed (r_op r') \<and> m_stage (r_op r') = DONE" .
    moreover from r have "r_op r = r_op r'" by simp
    ultimately show ?thesis by simp
  next
    case False
    then have "(\<not> stop \<and> process_next ?mt (env_virt E) op3) = False" by simp
    with Cons.prems(1) hs nstop ps
    have "Some (finish (m_msg_type op3 = msg_type_Error ?mt) cs op3 fs Idle) = Some r"
      by (simp del: not_False_eq_True)
    then have r: "r = finish (m_msg_type op3 = msg_type_Error ?mt) cs op3 fs Idle"
      by simp
    with Cons.prems(2) have "cs = pre @ Call_error p c s st m # post"
      by (simp add: finish_fields)
    from payload_stage_Call_error [OF ps this] r show ?thesis
      by (simp add: finish_fields)
  qed
qed

lemma header_stage_Error:
  assumes "f_type f = msg_type_Error (env_msg_type E)"
  shows "header_stage E rd op f
           = (EXPECTED, op\<lparr>m_msg_type := f_type f, m_msg_size := length (f_payload f),
                            m_skip := False\<rparr>)"
  using assms by (simp add: header_stage_def Let_def next_msg_def)

lemma dispatch_Error:
  assumes "msg_type_Error (env_msg_type E) \<noteq> msg_type_Notice (env_msg_type E)"
    and "m_msg_type op = msg_type_Error (env_msg_type E)"
    and "m_prc op = Some p"
  shows "dispatch E op f (Msg_Error err)
           = Some ([Call_message_begin p (m_msg_type op) (m_msg_size op)]
                   @ (if env_raw_payload E p then [Call_raw_payload p (f_payload f)] else [])
                   @ [Call_error p (err_code err) Severity_ERROR
                        (sql_state_t (err_sql_state err)) (err_msg err)]
                   @ (if m_call_message_end op then [Call_message_end p] else []),
                   m_call_message_end op \<and> env_message_end_stop E p, op)"
  using assms by (auto simp add: dispatch_def process_msg_def Severity_ERROR_def)

lemma do_read_msg_Error_frame:
  assumes d: "msg_type_Error (env_msg_type E) \<noteq> msg_type_Notice (env_msg_type E)"
    and t: "f_type f = msg_type_Error (env_msg_type E)"
    and p: "m_prc op = Some p"
    and reg: "env_registry E (env_side E) (f_type f) = Some decoder"
    and dec: "decoder (f_payload f) = Some (Msg_Error err)"
  shows "\<exists>r. do_read_msg E rd op (f # fs) = Some r \<and>
           r_calls r =
             [Call_message_begin p (f_type f) (length (f_payload f))]
             @ (if env_raw_payload E p then [Call_raw_payload p (f_payload f)] else [])
             @ [Call_error p (err_code err) Severity_ERROR (sql_state_t (err_sql_state err))
                  (err_msg err)]
             @ (if m_call_message_end op then [Call_message_end p] else []) \<and>
           is_done (r_op r) \<and> m_stage (r_op r) = DONE \<and> r_rest r = fs"
proof -
  let ?op2 = "op\<lparr>m_msg_type := f_type f, m_msg_size := length (f_payload f),
                  m_skip := False, m_stage := PAYLOAD\<rparr>"
  let ?cs = "[Call_message_begin p (f_type f) (length (f_payload f))]
             @ (if env_raw_payload E p then [Call_raw_payload p (f_payload f)] else [])
             @ [Call_error p (err_code err) Severity_ERROR (sql_state_t (err_sql_state err))
                  (err_msg err)]
             @ (if m_call_message_end op then [Call_message_end p] else [])"
  have "dispatch E ?op2 f (Msg_Error err)
          = Some (?cs, m_call_message_end op \<and> env_message_end_stop E p, ?op2)"
    using dispatch_Error [of E ?op2 p f err] d t p by simp
  then have ps: "payload_stage E ?op2 f
          = Some (?cs, m_call_message_end op \<and> env_message_end_stop E p, ?op2)"
    using reg dec by (simp add: payload_stage_def)
  have pn: "\<not> process_next (env_msg_type E) (env_virt E) ?op2"
    using d t by (auto simp add: process_next_def)
  have "do_read_msg E rd op (f # fs) = Some (finish True ?cs ?op2 fs Idle)"
    using header_stage_Error [OF t, of rd op] ps pn t by simp
  then show ?thesis
    by (simp add: finish_fields is_done_def is_completed_def)
qed

text \<open>
  C2. Once a receive operation has handed an Error frame to the error callback, it goes
  on with no further message. \<^verbatim>\<open>process_next\<close> returns false after an Error. A
  receive that meets an Error frame at the head of the stream makes the calls of that
  frame alone (\<^verbatim>\<open>message_begin\<close>, the raw payload if asked for, \<^verbatim>\<open>error\<close>,
  \<^verbatim>\<open>message_end\<close> unless suppressed), ends completed, so \<^verbatim>\<open>is_done()\<close> holds, in
  stage \<^verbatim>\<open>DONE\<close>, and leaves the frames behind it on the stream. And wherever in a
  receive the \<^verbatim>\<open>error\<close> call is made, no call follows it but the
  \<^verbatim>\<open>message_end\<close> of the Error frame itself, and the receive ends done.
\<close>

theorem error_ends_receive:
  assumes "msg_type_Error (env_msg_type E) \<noteq> msg_type_Notice (env_msg_type E)"
  shows
    "(m_msg_type op = msg_type_Error (env_msg_type E) \<longrightarrow>
        \<not> process_next (env_msg_type E) v op) \<and>
     (f_type f = msg_type_Error (env_msg_type E) \<and> m_prc op = Some p \<and>
      env_registry E (env_side E) (f_type f) = Some decoder \<and>
      decoder (f_payload f) = Some (Msg_Error err) \<longrightarrow>
        (\<exists>r. do_read_msg E rd op (f # fs) = Some r \<and>
           r_calls r =
             [Call_message_begin p (f_type f) (length (f_payload f))]
             @ (if env_raw_payload E p then [Call_raw_payload p (f_payload f)] else [])
             @ [Call_error p (err_code err) Severity_ERROR (sql_state_t (err_sql_state err))
                  (err_msg err)]
             @ (if m_call_message_end op then [Call_message_end p] else []) \<and>
           is_done (r_op r) \<and> m_stage (r_op r) = DONE \<and> r_rest r = fs)) \<and>
     (do_read_msg E rd' op' fs' = Some r' \<and>
      r_calls r' = pre @ Call_error q c s st m # post \<longrightarrow>
        (post = [] \<or> post = [Call_message_end q]) \<and>
        is_done (r_op r') \<and> m_stage (r_op r') = DONE)"
proof (intro conjI impI)
  assume "m_msg_type op = msg_type_Error (env_msg_type E)"
  with assms show "\<not> process_next (env_msg_type E) v op"
    by (auto simp add: process_next_def)
next
  assume "f_type f = msg_type_Error (env_msg_type E) \<and> m_prc op = Some p \<and>
      env_registry E (env_side E) (f_type f) = Some decoder \<and>
      decoder (f_payload f) = Some (Msg_Error err)"
  then have t: "f_type f = msg_type_Error (env_msg_type E)" and p: "m_prc op = Some p"
    and reg: "env_registry E (env_side E) (f_type f) = Some decoder"
    and dec: "decoder (f_payload f) = Some (Msg_Error err)"
    by blast+
  show "\<exists>r. do_read_msg E rd op (f # fs) = Some r \<and>
           r_calls r =
             [Call_message_begin p (f_type f) (length (f_payload f))]
             @ (if env_raw_payload E p then [Call_raw_payload p (f_payload f)] else [])
             @ [Call_error p (err_code err) Severity_ERROR (sql_state_t (err_sql_state err))
                  (err_msg err)]
             @ (if m_call_message_end op then [Call_message_end p] else []) \<and>
           is_done (r_op r) \<and> m_stage (r_op r) = DONE \<and> r_rest r = fs"
    by (rule do_read_msg_Error_frame [OF assms t p reg dec])
next
  assume a: "do_read_msg E rd' op' fs' = Some r' \<and>
      r_calls r' = pre @ Call_error q c s st m # post"
  from do_read_msg_Call_error [of E rd' op' fs' r' pre q c s st m post] a
  show "post = [] \<or> post = [Call_message_end q]" by simp
  from do_read_msg_Call_error [of E rd' op' fs' r' pre q c s st m post] a
  show "is_done (r_op r')" by (simp add: is_done_def is_completed_def)
  from do_read_msg_Call_error [of E rd' op' fs' r' pre q c s st m post] a
  show "m_stage (r_op r') = DONE" by simp
qed

theorem error_ends_receive_witness:
  "do_read_msg example_env Idle example_op
     [\<lparr>f_type = 1, f_payload = [3]\<rparr>, \<lparr>f_type = 13, f_payload = [4]\<rparr>]
     = Some \<lparr>r_calls = [Call_message_begin 7 1 1,
                         Call_error 7 1045 Severity_ERROR (sql_state_t ''28000'')
                           ''Access denied'',
                         Call_message_end 7],
              r_raised = None,
              r_op = example_op\<lparr>m_completed := True, m_stage := DONE, m_msg_type := 1,
                                m_msg_size := 1\<rparr>,
              r_rest = [\<lparr>f_type = 13, f_payload = [4]\<rparr>],
              r_rd = Idle\<rparr> \<and>
   \<not> process_next (env_msg_type example_env) Op_rcv_default (example_op\<lparr>m_msg_type := 1\<rparr>)"
  using error_ends_receive [of example_env "example_op\<lparr>m_msg_type := 1\<rparr>" Op_rcv_default
      "\<lparr>f_type = 1, f_payload = [3]\<rparr>" 7
      "\<lambda>b. Some (Msg_Error (Mysqlx_Error 1045 0 ''28000'' ''Access denied''))"
      "Mysqlx_Error 1045 0 ''28000'' ''Access denied''" Idle
      "[\<lparr>f_type = 13, f_payload = [4]\<rparr>]" Idle example_op
      "[\<lparr>f_type = 1, f_payload = [3]\<rparr>, \<lparr>f_type = 13, f_payload = [4]\<rparr>]"]
  by (simp add: example_env_def example_op_def header_stage_def next_msg_def
      payload_stage_def dispatch_def process_msg_def process_next_def finish_def
      throw_saved_error_def Severity_ERROR_def Let_def)

subsection \<open>Starting and resuming a receive operation\<close>

lemma read_header_idem: "read_header (read_header P) = read_header P"
  by (cases "rd_msg P") (simp_all add: read_header_def)

lemma read_header_keeps:
  "m_str (read_header P) = m_str P \<and> m_rcv_op (read_header P) = m_rcv_op P"
  by (cases "rd_msg P") (simp_all add: read_header_def)

lemma read_header_rcv_op_update:
  "read_header (P\<lparr>m_rcv_op := x\<rparr>) = (read_header P)\<lparr>m_rcv_op := x\<rparr>"
  by (cases "rd_msg P") (simp_all add: read_header_def)

lemma rcv_start_running:
  assumes "m_rcv_op P = Some op" and "\<not> is_done op"
  shows "rcv_start R prc P
           = (case Rcv_resume R prc op P of (op', P') \<Rightarrow> P'\<lparr>m_rcv_op := Some op'\<rparr>)"
  using assms by (simp add: rcv_start_def Let_def)

lemma rcv_start_resume:
  assumes "Rcv_resume R = resume" and "m_rcv_op P = Some op" and "\<not> is_done op"
  shows "rcv_start R prc P
           = (read_header P)\<lparr>m_rcv_op := Some (op\<lparr>m_prc := Some prc, m_stage := HEADER\<rparr>)\<rparr>"
  using assms by (simp add: rcv_start_running resume_def read_msg_def Let_def)

lemma rcv_start_twice:
  assumes R: "Rcv_resume R = resume" and op: "m_rcv_op P = Some op" and nd: "\<not> is_done op"
  shows "rcv_start R prc (rcv_start R prc P) = rcv_start R prc P"
proof -
  let ?op = "op\<lparr>m_prc := Some prc, m_stage := HEADER\<rparr>"
  let ?P = "(read_header P)\<lparr>m_rcv_op := Some ?op\<rparr>"
  have one: "rcv_start R prc P = ?P"
    by (rule rcv_start_resume [OF R op nd])
  have "m_rcv_op ?P = Some ?op" by simp
  moreover have "\<not> is_done ?op"
    using nd by (simp add: is_done_def is_completed_def)
  ultimately have "rcv_start R prc ?P
      = (read_header ?P)\<lparr>m_rcv_op := Some (?op\<lparr>m_prc := Some prc, m_stage := HEADER\<rparr>)\<rparr>"
    by (rule rcv_start_resume [OF R])
  also have "\<dots> = ?P"
    by (simp add: read_header_rcv_op_update read_header_idem)
  finally show ?thesis by (simp add: one)
qed

text \<open>
  C6. \<^verbatim>\<open>rcv_start\<close> with a receive class \<open>R\<close> and a processor: when the current
  operation exists and is done it is discarded and an operation of class \<open>R\<close> is
  created and resumed; when there is none, one is created and resumed; and when the
  current one is not done it is resumed as it is, with nothing created. With the
  \<^verbatim>\<open>resume\<close> of the specification, a second \<^verbatim>\<open>rcv_start\<close> while the operation is
  still running leaves the engine exactly as the first did: the same operation, and the
  stream untouched by either call.
\<close>

theorem rcv_start_cases:
  "(m_rcv_op P = Some op \<and> is_done op \<longrightarrow>
      rcv_start R prc P
        = (case Rcv_resume R prc (Rcv_new R) (P\<lparr>m_rcv_op := Some (Rcv_new R)\<rparr>) of
             (op', P') \<Rightarrow> P'\<lparr>m_rcv_op := Some op'\<rparr>)) \<and>
   (m_rcv_op P = None \<longrightarrow>
      rcv_start R prc P
        = (case Rcv_resume R prc (Rcv_new R) (P\<lparr>m_rcv_op := Some (Rcv_new R)\<rparr>) of
             (op', P') \<Rightarrow> P'\<lparr>m_rcv_op := Some op'\<rparr>)) \<and>
   (m_rcv_op P = Some op \<and> \<not> is_done op \<longrightarrow>
      rcv_start R prc P
        = (case Rcv_resume R prc op P of (op', P') \<Rightarrow> P'\<lparr>m_rcv_op := Some op'\<rparr>)) \<and>
   (Rcv_resume R = resume \<and> m_rcv_op P = Some op \<and> \<not> is_done op \<longrightarrow>
      rcv_start R prc (rcv_start R prc P) = rcv_start R prc P \<and>
      m_rcv_op (rcv_start R prc P) = Some (op\<lparr>m_prc := Some prc, m_stage := HEADER\<rparr>) \<and>
      m_str (rcv_start R prc P) = m_str P)"
proof (intro conjI impI)
  assume "m_rcv_op P = Some op \<and> is_done op"
  then show "rcv_start R prc P
        = (case Rcv_resume R prc (Rcv_new R) (P\<lparr>m_rcv_op := Some (Rcv_new R)\<rparr>) of
             (op', P') \<Rightarrow> P'\<lparr>m_rcv_op := Some op'\<rparr>)"
    by (simp add: rcv_start_def Let_def)
next
  assume "m_rcv_op P = None"
  then show "rcv_start R prc P
        = (case Rcv_resume R prc (Rcv_new R) (P\<lparr>m_rcv_op := Some (Rcv_new R)\<rparr>) of
             (op', P') \<Rightarrow> P'\<lparr>m_rcv_op := Some op'\<rparr>)"
    by (simp add: rcv_start_def Let_def)
next
  assume "m_rcv_op P = Some op \<and> \<not> is_done op"
  then show "rcv_start R prc P
        = (case Rcv_resume R prc op P of (op', P') \<Rightarrow> P'\<lparr>m_rcv_op := Some op'\<rparr>)"
    by (simp add: rcv_start_running)
next
  assume a: "Rcv_resume R = resume \<and> m_rcv_op P = Some op \<and> \<not> is_done op"
  then show "rcv_start R prc (rcv_start R prc P) = rcv_start R prc P"
    by (simp add: rcv_start_twice)
  from a show "m_rcv_op (rcv_start R prc P)
      = Some (op\<lparr>m_prc := Some prc, m_stage := HEADER\<rparr>)"
    by (simp add: rcv_start_resume)
  from a show "m_str (rcv_start R prc P) = m_str P"
    by (simp add: rcv_start_resume read_header_keeps)
qed

theorem rcv_start_cases_witness:
  "rcv_start \<lparr>Rcv_new = Op_rcv_ctor example_op, Rcv_resume = resume\<rparr> 8
     (rcv_start \<lparr>Rcv_new = Op_rcv_ctor example_op, Rcv_resume = resume\<rparr> 8 example_engine)
     = rcv_start \<lparr>Rcv_new = Op_rcv_ctor example_op, Rcv_resume = resume\<rparr> 8 example_engine \<and>
   rcv_start \<lparr>Rcv_new = Op_rcv_ctor example_op, Rcv_resume = resume\<rparr> 8 example_engine
     = example_engine\<lparr>rd_msg := AwaitHeader, m_rcv_op := Some (example_op\<lparr>m_prc := Some 8\<rparr>)\<rparr> \<and>
   rcv_start \<lparr>Rcv_new = Op_rcv_ctor example_op, Rcv_resume = resume\<rparr> 8
       (example_engine\<lparr>m_rcv_op := Some (example_op\<lparr>m_completed := True, m_skip := True\<rparr>)\<rparr>)
     = example_engine\<lparr>rd_msg := AwaitHeader, m_rcv_op := Some (example_op\<lparr>m_prc := Some 8\<rparr>)\<rparr>"
  using rcv_start_cases [of example_engine example_op
      "\<lparr>Rcv_new = Op_rcv_ctor example_op, Rcv_resume = resume\<rparr>" 8]
    rcv_start_cases [of
      "example_engine\<lparr>m_rcv_op := Some (example_op\<lparr>m_completed := True, m_skip := True\<rparr>)\<rparr>"
      "example_op\<lparr>m_completed := True, m_skip := True\<rparr>"
      "\<lparr>Rcv_new = Op_rcv_ctor example_op, Rcv_resume = resume\<rparr>" 8]
  by (simp add: rcv_start_def example_engine_def example_op_def is_done_def is_completed_def resume_def
      read_msg_def read_header_def Op_rcv_ctor_def Let_def)

subsection \<open>Deferred errors\<close>

text \<open>
  \<^verbatim>\<open>throw_saved_error\<close> on its own only raises: it throws the saved error when there
  is one, returns normally otherwise, and leaves the operation as it was. Clearing the
  saved error is the part of the stage boundary that calls it.
\<close>

lemma throw_saved_error_only_raises:
  "(fst (throw_saved_error op) = Inl e \<longleftrightarrow> m_error op = Some e) \<and>
   (fst (throw_saved_error op) = Inr () \<longleftrightarrow> m_error op = None) \<and>
   snd (throw_saved_error op) = op"
  by (simp add: throw_saved_error_def split: option.splits)






end
